theory Spec2Isabelle
  imports Main
begin

section \<open>Strings and values of the host language\<close>

text \<open>
  The bridge is written in TypeScript. Strings are modelled as \<^typ>\<open>string\<close>, read as ASCII text:
  white space (the class \<^verbatim>\<open>\s\<close> of regular expressions and the characters that
  \<^verbatim>\<open>trim\<close> removes) is the six ASCII white-space characters, and \<^verbatim>\<open>toUpperCase\<close>
  maps the letters \<^verbatim>\<open>a\<close> to \<^verbatim>\<open>z\<close>.
\<close>

definition isSpace :: "char \<Rightarrow> bool" where
  "isSpace c \<longleftrightarrow> c \<in> set [CHR 0x20, CHR 0x09, CHR 0x0A, CHR 0x0B, CHR 0x0C, CHR 0x0D]"

definition isQuote :: "char \<Rightarrow> bool" where
  "isQuote c \<longleftrightarrow> c = CHR 0x27 \<or> c = CHR 0x22"

definition toUpperChar :: "char \<Rightarrow> char" where
  "toUpperChar c =
     (case map_of (zip ''abcdefghijklmnopqrstuvwxyz'' ''ABCDEFGHIJKLMNOPQRSTUVWXYZ'') c of
        None \<Rightarrow> c
      | Some u \<Rightarrow> u)"

definition toUpperCase :: "string \<Rightarrow> string" where
  "toUpperCase s = map toUpperChar s"

text \<open>\<^verbatim>\<open>s.trim()\<close>: white space is removed at both ends.\<close>

definition trim :: "string \<Rightarrow> string" where
  "trim s = rev (dropWhile isSpace (rev (dropWhile isSpace s)))"

text \<open>
  \<^verbatim>\<open>s.split(/\s+/)\<close>: every maximal run of white space is one separator. The fields between
  the separators are returned, so a string that starts (or ends) with white space has an empty
  first (or last) field, and the empty string has the single field \<^verbatim>\<open>""\<close>.
\<close>

function splitWs :: "string \<Rightarrow> string list" where
  "splitWs [] = [[]]"
| "splitWs (c # cs) =
     (if isSpace c then [] # splitWs (dropWhile isSpace cs)
      else (case splitWs cs of
              [] \<Rightarrow> [[c]]
            | f # fs \<Rightarrow> (c # f) # fs))"
  by pat_completeness auto
termination
  by (relation "measure length") (auto simp: le_imp_less_Suc length_dropWhile_le)

text \<open>\<^verbatim>\<open>s.split(':')\<close> and \<^verbatim>\<open>xs.join(':')\<close>, for a separator of one character.\<close>

fun splitOn :: "char \<Rightarrow> string \<Rightarrow> string list" where
  "splitOn sep [] = [[]]"
| "splitOn sep (c # cs) =
     (if c = sep then [] # splitOn sep cs
      else (case splitOn sep cs of
              [] \<Rightarrow> [[c]]
            | f # fs \<Rightarrow> (c # f) # fs))"

fun joinWith :: "char \<Rightarrow> string list \<Rightarrow> string" where
  "joinWith sep [] = []"
| "joinWith sep [x] = x"
| "joinWith sep (x # y # ys) = x @ sep # joinWith sep (y # ys)"

text \<open>\<^verbatim>\<open>s.replace(/['"]/g, '')\<close>: every quote character is removed, wherever it stands.\<close>

definition removeQuotes :: "string \<Rightarrow> string" where
  "removeQuotes s = filter (\<lambda>c. \<not> isQuote c) s"

text \<open>
  \<^verbatim>\<open>s.replace(/^['"]|['"]$/g, '')\<close>: one quote character is removed at the start, if there
  is one, and then one at the end of what is left, if there is one.
\<close>

definition stripLeadingQuote :: "string \<Rightarrow> string" where
  "stripLeadingQuote s = (case s of [] \<Rightarrow> [] | c # cs \<Rightarrow> if isQuote c then cs else s)"

definition stripTrailingQuote :: "string \<Rightarrow> string" where
  "stripTrailingQuote s = (if s \<noteq> [] \<and> isQuote (last s) then butlast s else s)"

definition stripWrappingQuotes :: "string \<Rightarrow> string" where
  "stripWrappingQuotes s = stripTrailingQuote (stripLeadingQuote s)"

definition startsWithDash :: "string \<Rightarrow> bool" where
  "startsWithDash s = (case s of [] \<Rightarrow> False | c # _ \<Rightarrow> c = CHR ''-'')"

text \<open>
  JSON values, as \<^verbatim>\<open>JSON.parse\<close> returns them. The numbers of the runtime are a type
  parameter. \<^verbatim>\<open>JSON.parse\<close> itself belongs to the runtime, not to the bridge; the parser below
  takes it as an argument \<open>parse\<close>, where \<open>None\<close> stands for the \<^verbatim>\<open>SyntaxError\<close> it throws.
\<close>

datatype 'n json =
    JNull
  | JBool bool
  | JNumber 'n
  | JString string
  | JArray "'n json list"
  | JObject "(string \<times> 'n json) list"

section \<open>The request descriptor parser\<close>

text \<open>
  \<^verbatim>\<open>parseCurlCommand\<close> (the same text in the three files that define it). The descriptor is the
  object \<^verbatim>\<open>{ url, method, headers, body }\<close>; the four local variables of the function are
  the fields of the record while the loop runs (\<^verbatim>\<open>method\<close> is the field \<open>httpMethod\<close>).
  An absent body is \<^verbatim>\<open>undefined\<close>.
\<close>

record 'n descriptor =
  url :: string
  httpMethod :: string
  headers :: "string \<rightharpoonup> string"
  body :: "'n json option"

datatype error = Error string

definition initial :: "'n descriptor" where
  "initial = \<lparr>url = [], httpMethod = ''GET'', headers = Map.empty, body = None\<rparr>"

text \<open>
  The header branch, after the quotes are removed: nothing happens for an empty text, for a
  text without a colon and for an empty key. \<^verbatim>\<open>headers\<close> is an object literal, so an
  assignment of a string to its key \<^verbatim>\<open>__proto__\<close> creates no entry.
\<close>

definition addHeader :: "string \<Rightarrow> 'n descriptor \<Rightarrow> 'n descriptor" where
  "addHeader header d =
     (if header = [] then d
      else (case splitOn CHR '':'' header of
              [] \<Rightarrow> d
            | key # valueParts \<Rightarrow>
                if key \<noteq> [] \<and> length valueParts > 0 then
                  (if trim key = ''__proto__'' then d
                   else d\<lparr>headers := (headers d)(trim key \<mapsto> trim (joinWith CHR '':'' valueParts))\<rparr>)
                else d))"

text \<open>The data branch, after the wrapping quotes are stripped.\<close>

definition addData :: "(string \<Rightarrow> 'n json option) \<Rightarrow> string \<Rightarrow> 'n descriptor \<Rightarrow> 'n descriptor" where
  "addData parse data d =
     (if data = [] then d
      else (case parse data of
              Some v \<Rightarrow> d\<lparr>body := Some v\<rparr>
            | None \<Rightarrow> d\<lparr>body := Some (JString data)\<rparr>))"

text \<open>
  The loop over \<^verbatim>\<open>parts\<close>. The cursor \<^verbatim>\<open>i\<close> is the head of the list; \<^verbatim>\<open>parts[++i]\<close>
  takes the next element and moves the cursor over it, and is \<^verbatim>\<open>undefined\<close> when the flag is
  the last element.
\<close>

fun walk :: "(string \<Rightarrow> 'n json option) \<Rightarrow> string list \<Rightarrow> 'n descriptor \<Rightarrow> 'n descriptor" where
  "walk parse [] d = d"
| "walk parse (part # rest) d =
     (if part = ''curl'' then walk parse rest d
      else if part = ''-X'' \<or> part = ''--request'' then
        (case rest of
           [] \<Rightarrow> d\<lparr>httpMethod := ''GET''\<rparr>
         | t # rest' \<Rightarrow>
             walk parse rest'
               (d\<lparr>httpMethod := (if toUpperCase t = [] then ''GET'' else toUpperCase t)\<rparr>))
      else if part = ''-H'' \<or> part = ''--header'' then
        (case rest of
           [] \<Rightarrow> d
         | t # rest' \<Rightarrow> walk parse rest' (addHeader (removeQuotes t) d))
      else if part = ''-d'' \<or> part = ''--data'' then
        (case rest of
           [] \<Rightarrow> d
         | t # rest' \<Rightarrow> walk parse rest' (addData parse (stripWrappingQuotes t) d))
      else if \<not> startsWithDash part \<and> url d = [] then
        walk parse rest (d\<lparr>url := removeQuotes part\<rparr>)
      else walk parse rest d)"

definition parseCurlCommand :: "(string \<Rightarrow> 'n json option) \<Rightarrow> string \<Rightarrow> error + 'n descriptor" where
  "parseCurlCommand parse curlCommand =
     (let d = walk parse (splitWs curlCommand) initial
      in if url d = [] then Inl (Error ''No URL found in CURL command'') else Inr d)"

text \<open>
  The command of the tool's own description (\<^verbatim>\<open>curl_command\<close>) and of its documentation
  resource, with the host and the data of the specification's example.
\<close>

definition exampleCommand :: string where
  "exampleCommand =
     ''curl -X POST https://example.test/x -H 'Content-Type: application/json'' @ [CHR 0x27]
       @ '' -d '{\"a\":1}'' @ [CHR 0x27]"

text \<open>Three more commands, for the examples below.\<close>

definition quotedCommand :: string where
  "quotedCommand = ''curl http://a'b\"c/x -H X-T:v'1\"2''"

definition dataCommand :: string where
  "dataCommand = ''curl http://a -d 'hello'' @ [CHR 0x27]"

definition emptyDataCommand :: string where
  "emptyDataCommand = ''curl http://x -d '' @ [CHR 0x27, CHR 0x27]"

section \<open>Reading a token list the way the loop does\<close>

text \<open>
  The notions the statements about the parser need. A flag of the three kinds takes the next
  token as its argument. \<open>wholeSteps pre\<close> holds when the loop, started at the head of \<open>pre\<close>,
  comes to stand exactly behind \<open>pre\<close> (its last step is not a flag that reaches for a token
  beyond it). \<open>urlCandidates\<close> lists the tokens the loop meets that are neither \<^verbatim>\<open>curl\<close>, nor
  a flag, nor the argument of a flag, and that do not start with a dash.
\<close>

definition isMethodFlag :: "string \<Rightarrow> bool" where
  "isMethodFlag p \<longleftrightarrow> p = ''-X'' \<or> p = ''--request''"

definition isHeaderFlag :: "string \<Rightarrow> bool" where
  "isHeaderFlag p \<longleftrightarrow> p = ''-H'' \<or> p = ''--header''"

definition isDataFlag :: "string \<Rightarrow> bool" where
  "isDataFlag p \<longleftrightarrow> p = ''-d'' \<or> p = ''--data''"

definition takesArgument :: "string \<Rightarrow> bool" where
  "takesArgument p \<longleftrightarrow> isMethodFlag p \<or> isHeaderFlag p \<or> isDataFlag p"

fun wholeSteps :: "string list \<Rightarrow> bool" where
  "wholeSteps [] = True"
| "wholeSteps (p # rest) =
     (if takesArgument p then (case rest of [] \<Rightarrow> False | t # rest' \<Rightarrow> wholeSteps rest')
      else wholeSteps rest)"

fun urlCandidates :: "string list \<Rightarrow> string list" where
  "urlCandidates [] = []"
| "urlCandidates (p # rest) =
     (if p = ''curl'' then urlCandidates rest
      else if takesArgument p then (case rest of [] \<Rightarrow> [] | t # rest' \<Rightarrow> urlCandidates rest')
      else if startsWithDash p then urlCandidates rest
      else p # urlCandidates rest)"

text \<open>
  A stand-in for \<^verbatim>\<open>JSON.parse\<close> on texts that are not JSON: it rejects every text. The
  closed examples below use it with data that \<^verbatim>\<open>JSON.parse\<close> rejects as well.
\<close>

definition jsonRejects :: "string \<Rightarrow> 'n json option" where
  "jsonRejects s = None"

section \<open>Sessions, transports and promises\<close>

text \<open>
  \<^verbatim>\<open>sessions\<close> is a module-level object literal \<^verbatim>\<open>{}\<close> used as a dictionary from session
  identifiers to entries \<^verbatim>\<open>{ transport }\<close>. The map holds its own entries; a read
  \<^verbatim>\<open>sessions[k]\<close> also finds the properties every object literal inherits from
  \<^verbatim>\<open>Object.prototype\<close>, which are functions or objects (truthy) and have no
  \<^verbatim>\<open>transport\<close>. \<^verbatim>\<open>delete sessions[k]\<close> removes an own entry only.
\<close>

definition objectPrototypeKeys :: "string list" where
  "objectPrototypeKeys =
     [''constructor'', ''__proto__'', ''hasOwnProperty'', ''isPrototypeOf'',
      ''propertyIsEnumerable'', ''toLocaleString'', ''toString'', ''valueOf'',
      ''__defineGetter__'', ''__defineSetter__'', ''__lookupGetter__'', ''__lookupSetter__'']"

datatype 't property = Entry 't | Inherited | Undefined

definition property :: "(string \<rightharpoonup> 't) \<Rightarrow> string \<Rightarrow> 't property" where
  "property sessions k =
     (case sessions k of
        Some t \<Rightarrow> Entry t
      | None \<Rightarrow> if k \<in> set objectPrototypeKeys then Inherited else Undefined)"

text \<open>
  The chain \<^verbatim>\<open>if (sessionId && sessions[sessionId]) ... else if (!sessionId &&
  isInitializeRequest(body)) ... else ...\<close> that opens every POST handler. An absent header is
  \<^verbatim>\<open>undefined\<close>, which is falsy like the empty string. \<open>Reuse None\<close> is the first branch
  taken with \<^verbatim>\<open>sessions[sessionId].transport\<close> undefined.
\<close>

datatype 't route = Reuse "'t option" | Initialize | Invalid

definition route :: "(string \<rightharpoonup> 't) \<Rightarrow> string option \<Rightarrow> bool \<Rightarrow> 't route" where
  "route sessions sessionId isInit =
     (case sessionId of
        None \<Rightarrow> if isInit then Initialize else Invalid
      | Some sid \<Rightarrow>
          if sid = [] then (if isInit then Initialize else Invalid)
          else (case property sessions sid of
                  Entry t \<Rightarrow> Reuse (Some t)
                | Inherited \<Rightarrow> Reuse None
                | Undefined \<Rightarrow> Invalid))"

text \<open>
  The protocol engine is a collaborator. What it does with the response sink it is handed is a
  \<open>run\<close>: the sink calls it makes before \<^verbatim>\<open>handleRequest\<close> returns its promise (\<open>sync\<close>),
  and then, in the order they reach the handler before the serving framework reads the reply,
  further sink calls and the settling of that promise (\<open>later\<close>). A run whose \<open>later\<close> has
  neither \<open>Fulfilled\<close> nor \<open>Failed\<close> is one whose promise never settles.
\<close>

datatype sinkCall =
    SetHeader string string
  | WriteHead nat "(string \<rightharpoonup> string) option"
  | Write
  | End "string option"

datatype signal = Call sinkCall | Fulfilled | Failed

record run =
  sync :: "sinkCall list"
  later :: "signal list"

record ('t, 'b) engine =
  isInitializeRequest :: "'b \<Rightarrow> bool"
  created :: 't
  connects :: bool
  behaviour :: run

text \<open>The request view handed to \<^verbatim>\<open>transport.handleRequest\<close>, with the transport it is handed to.\<close>

record ('t, 'b) forwarded =
  callee :: 't
  reqMethod :: string
  reqHeaders :: "string \<rightharpoonup> string"
  reqBody :: "'b option"
  reqUrl :: string

text \<open>
  A promise is pending, fulfilled with a value or rejected; \<^verbatim>\<open>resolve\<close> and \<^verbatim>\<open>reject\<close>
  act on a pending promise only.
\<close>

datatype failure = TypeError | Thrown

datatype 'a future = Pending | Resolved 'a | Rejected failure

definition resolve :: "'a \<Rightarrow> 'a future \<Rightarrow> 'a future" where
  "resolve v p = (case p of Pending \<Rightarrow> Resolved v | _ \<Rightarrow> p)"

definition reject :: "failure \<Rightarrow> 'a future \<Rightarrow> 'a future" where
  "reject e p = (case p of Pending \<Rightarrow> Rejected e | _ \<Rightarrow> p)"

text \<open>\<^verbatim>\<open>data || ''\<close>\<close>

definition orEmpty :: "string option \<Rightarrow> string" where
  "orEmpty data = (case data of None \<Rightarrow> [] | Some s \<Rightarrow> s)"

text \<open>
  \<^verbatim>\<open>JSON.stringify({ jsonrpc: '2.0', error: { code, message }, id: null })\<close>, for a code
  given in decimal and a message that needs no escape.
\<close>

definition jsonRpcError :: "string \<Rightarrow> string \<Rightarrow> string" where
  "jsonRpcError code message =
     ''{\"jsonrpc\":\"2.0\",\"error\":{\"code\":'' @ code @ '',\"message\":\"'' @ message
       @ ''\"},\"id\":null}''"

section \<open>The handlers of src/index.ts\<close>

text \<open>
  These handlers return \<^verbatim>\<open>Response\<close> objects, or a promise of one. The constructor of
  \<^verbatim>\<open>Response\<close> is taken to accept the status it is given.
\<close>

record response =
  status :: nat
  respHeaders :: "string \<rightharpoonup> string"
  respBody :: string

record ('t, 'b) responded =
  sessionsAfter :: "string \<rightharpoonup> 't"
  calls :: "('t, 'b) forwarded list"
  answer :: "response future"

definition corsHeaders :: "string \<rightharpoonup> string" where
  "corsHeaders =
     [''Access-Control-Allow-Origin'' \<mapsto> ''*'',
      ''Access-Control-Allow-Methods'' \<mapsto> ''GET, POST, PUT, DELETE, OPTIONS'',
      ''Access-Control-Allow-Headers'' \<mapsto> ''Content-Type, mcp-session-id'']"

definition jsonHeaders :: "string \<rightharpoonup> string" where
  "jsonHeaders = [''Content-Type'' \<mapsto> ''application/json''] ++ corsHeaders"

definition badRequest :: response where
  "badRequest =
     \<lparr>status = 400, respHeaders = jsonHeaders,
      respBody = jsonRpcError ''-32000'' ''Bad Request''\<rparr>"

definition internalError :: response where
  "internalError =
     \<lparr>status = 500, respHeaders = jsonHeaders,
      respBody = jsonRpcError ''-32603'' ''Internal Error''\<rparr>"

text \<open>The object \<^verbatim>\<open>res\<close> and the promise that its \<^verbatim>\<open>end\<close> resolves.\<close>

record sink =
  statusCode :: nat
  sinkHeaders :: "string \<rightharpoonup> string"
  sinkData :: "string option"

definition freshSink :: sink where
  "freshSink = \<lparr>statusCode = 200, sinkHeaders = Map.empty, sinkData = None\<rparr>"

record adapter =
  res :: sink
  promise :: "response future"

definition freshAdapter :: adapter where
  "freshAdapter = \<lparr>res = freshSink, promise = Pending\<rparr>"

text \<open>
  \<^verbatim>\<open>writeHead\<close> of src/index.ts takes the status only. \<^verbatim>\<open>end\<close> builds the response from
  the sink as it is then and resolves the promise with it.
\<close>

fun call_index :: "sinkCall \<Rightarrow> adapter \<Rightarrow> adapter" where
  "call_index (SetHeader k v) a = a\<lparr>res := (res a)\<lparr>sinkHeaders := (sinkHeaders (res a))(k \<mapsto> v)\<rparr>\<rparr>"
| "call_index (WriteHead st hs) a = a\<lparr>res := (res a)\<lparr>statusCode := st\<rparr>\<rparr>"
| "call_index Write a = a"
| "call_index (End data) a =
     a\<lparr>promise :=
         resolve \<lparr>status = statusCode (res a),
                  respHeaders = jsonHeaders ++ sinkHeaders (res a),
                  respBody = orEmpty data\<rparr>
           (promise a)\<rparr>"

text \<open>Nothing is attached to the promise of \<^verbatim>\<open>handleRequest\<close>: its settling changes nothing.\<close>

fun signals_index :: "signal list \<Rightarrow> adapter \<Rightarrow> adapter" where
  "signals_index [] a = a"
| "signals_index (Call c # ss) a = signals_index ss (call_index c a)"
| "signals_index (Fulfilled # ss) a = signals_index ss a"
| "signals_index (Failed # ss) a = signals_index ss a"

definition drive_index :: "run \<Rightarrow> response future" where
  "drive_index r = promise (signals_index (map Call (sync r) @ later r) freshAdapter)"

text \<open>
  \<^verbatim>\<open>app.post('/mcp', ...)\<close>. A failing \<^verbatim>\<open>await server.connect(transport)\<close> is caught by the
  handler's \<^verbatim>\<open>catch\<close>. The promise is returned without \<^verbatim>\<open>await\<close>: the call of
  \<^verbatim>\<open>handleRequest\<close> on an undefined transport throws inside the promise's executor, which
  rejects the promise. The handler's arguments \<^verbatim>\<open>headers\<close> and \<^verbatim>\<open>body\<close> are \<open>inHeaders\<close>
  and \<open>inBody\<close> here.
\<close>

definition post_mcp_index ::
  "('t, 'b) engine \<Rightarrow> (string \<rightharpoonup> 't) \<Rightarrow> (string \<rightharpoonup> string) \<Rightarrow> 'b \<Rightarrow> ('t, 'b) responded" where
  "post_mcp_index eng sessions inHeaders inBody =
     (let forward = (\<lambda>t.
            \<lparr>sessionsAfter = sessions,
             calls = [\<lparr>callee = t, reqMethod = ''POST'', reqHeaders = inHeaders,
                       reqBody = Some inBody, reqUrl = ''/mcp''\<rparr>],
             answer = drive_index (behaviour eng)\<rparr>)
      in case route sessions (inHeaders ''mcp-session-id'') (isInitializeRequest eng inBody) of
           Reuse (Some t) \<Rightarrow> forward t
         | Reuse None \<Rightarrow> \<lparr>sessionsAfter = sessions, calls = [], answer = Rejected TypeError\<rparr>
         | Initialize \<Rightarrow>
             if connects eng then forward (created eng)
             else \<lparr>sessionsAfter = sessions, calls = [], answer = Resolved internalError\<rparr>
         | Invalid \<Rightarrow> \<lparr>sessionsAfter = sessions, calls = [], answer = Resolved badRequest\<rparr>)"

text \<open>\<^verbatim>\<open>app.delete('/mcp', ...)\<close>\<close>

definition delete_mcp_index ::
  "(string \<rightharpoonup> 't) \<Rightarrow> (string \<rightharpoonup> string) \<Rightarrow> ('t, 'b) responded" where
  "delete_mcp_index sessions inHeaders =
     \<lparr>sessionsAfter =
        (case inHeaders ''mcp-session-id'' of
           None \<Rightarrow> sessions
         | Some sid \<Rightarrow>
             if sid \<noteq> [] \<and> property sessions sid \<noteq> Undefined then sessions(sid := None)
             else sessions),
      calls = [],
      answer = Resolved \<lparr>status = 200, respHeaders = corsHeaders, respBody = []\<rparr>\<rparr>"

section \<open>The handlers of src/unnamed/part_001\<close>

text \<open>
  The same handlers as in src/index.ts, but for the sink: \<^verbatim>\<open>MockResponse\<close> merges the headers
  given to \<^verbatim>\<open>writeHead\<close>, its \<^verbatim>\<open>end\<close> stores the data and emits \<^verbatim>\<open>finish\<close>, whose listener
  resolves the promise, and a \<^verbatim>\<open>catch\<close> on the promise of \<^verbatim>\<open>handleRequest\<close> resolves it with
  the internal error.
\<close>

fun call_part001 :: "sinkCall \<Rightarrow> adapter \<Rightarrow> adapter" where
  "call_part001 (SetHeader k v) a = a\<lparr>res := (res a)\<lparr>sinkHeaders := (sinkHeaders (res a))(k \<mapsto> v)\<rparr>\<rparr>"
| "call_part001 (WriteHead st hs) a =
     a\<lparr>res := (res a)\<lparr>statusCode := st,
                         sinkHeaders := (case hs of
                                           None \<Rightarrow> sinkHeaders (res a)
                                         | Some h \<Rightarrow> sinkHeaders (res a) ++ h)\<rparr>\<rparr>"
| "call_part001 Write a = a"
| "call_part001 (End data) a =
     (let r = (res a)\<lparr>sinkData := data\<rparr>
      in a\<lparr>res := r,
            promise :=
              resolve \<lparr>status = statusCode r,
                       respHeaders = jsonHeaders ++ sinkHeaders r,
                       respBody = orEmpty (sinkData r)\<rparr>
                (promise a)\<rparr>)"

fun signals_part001 :: "signal list \<Rightarrow> adapter \<Rightarrow> adapter" where
  "signals_part001 [] a = a"
| "signals_part001 (Call c # ss) a = signals_part001 ss (call_part001 c a)"
| "signals_part001 (Fulfilled # ss) a = signals_part001 ss a"
| "signals_part001 (Failed # ss) a =
     signals_part001 ss (a\<lparr>promise := resolve internalError (promise a)\<rparr>)"

definition drive_part001 :: "run \<Rightarrow> response future" where
  "drive_part001 r = promise (signals_part001 (map Call (sync r) @ later r) freshAdapter)"

definition post_mcp_part001 ::
  "('t, 'b) engine \<Rightarrow> (string \<rightharpoonup> 't) \<Rightarrow> (string \<rightharpoonup> string) \<Rightarrow> 'b \<Rightarrow> ('t, 'b) responded" where
  "post_mcp_part001 eng sessions inHeaders inBody =
     (let forward = (\<lambda>t.
            \<lparr>sessionsAfter = sessions,
             calls = [\<lparr>callee = t, reqMethod = ''POST'', reqHeaders = inHeaders,
                       reqBody = Some inBody, reqUrl = ''/mcp''\<rparr>],
             answer = drive_part001 (behaviour eng)\<rparr>)
      in case route sessions (inHeaders ''mcp-session-id'') (isInitializeRequest eng inBody) of
           Reuse (Some t) \<Rightarrow> forward t
         | Reuse None \<Rightarrow> \<lparr>sessionsAfter = sessions, calls = [], answer = Rejected TypeError\<rparr>
         | Initialize \<Rightarrow>
             if connects eng then forward (created eng)
             else \<lparr>sessionsAfter = sessions, calls = [], answer = Resolved internalError\<rparr>
         | Invalid \<Rightarrow> \<lparr>sessionsAfter = sessions, calls = [], answer = Resolved badRequest\<rparr>)"

section \<open>The handlers of src/unnamed/part_000\<close>

text \<open>
  These handlers write status and headers to the \<^verbatim>\<open>set\<close> object of the serving framework
  and return the body. \<^verbatim>\<open>set\<close> is an argument here. \<open>freshSet\<close>, for the examples, holds
  the status 200 and the three headers the \<^verbatim>\<open>app.use\<close> hook of this file writes.
\<close>

record context_set =
  setStatus :: nat
  setHeaders :: "string \<rightharpoonup> string"

definition freshSet :: context_set where
  "freshSet =
     \<lparr>setStatus = 200,
      setHeaders =
        [''Access-Control-Allow-Origin'' \<mapsto> ''*'',
         ''Access-Control-Allow-Methods'' \<mapsto> ''GET, POST, PUT, DELETE, OPTIONS'',
         ''Access-Control-Allow-Headers'' \<mapsto> ''Content-Type, Authorization, mcp-session-id'']\<rparr>"

record ('t, 'b, 'n) replied =
  sessionsLeft :: "string \<rightharpoonup> 't"
  handed :: "('t, 'b) forwarded list"
  setLeft :: context_set
  returned :: "'n json option future"

text \<open>
  The sink writes to the local variables \<^verbatim>\<open>responseStatus\<close>, \<^verbatim>\<open>responseHeaders\<close> and
  \<^verbatim>\<open>responseData\<close>, the three fields of \<^typ>\<open>sink\<close> here.
\<close>

fun call_part000 :: "sinkCall \<Rightarrow> sink \<Rightarrow> sink" where
  "call_part000 (SetHeader k v) s = s\<lparr>sinkHeaders := (sinkHeaders s)(k \<mapsto> v)\<rparr>"
| "call_part000 (WriteHead st hs) s =
     s\<lparr>statusCode := st,
       sinkHeaders := (case hs of None \<Rightarrow> sinkHeaders s | Some h \<Rightarrow> sinkHeaders s ++ h)\<rparr>"
| "call_part000 Write s = s"
| "call_part000 (End data) s = s\<lparr>sinkData := data\<rparr>"

text \<open>
  \<^verbatim>\<open>await transport.handleRequest(...)\<close>: the handler goes on when the promise is fulfilled,
  with the sink as the calls before have left it; it throws when the promise is rejected; it
  waits for ever when the promise never settles.
\<close>

datatype awaited = Hangs | Returns sink | Throws

fun await_part000 :: "signal list \<Rightarrow> sink \<Rightarrow> awaited" where
  "await_part000 [] s = Hangs"
| "await_part000 (Call c # ss) s = await_part000 ss (call_part000 c s)"
| "await_part000 (Fulfilled # ss) s = Returns s"
| "await_part000 (Failed # ss) s = Throws"

text \<open>What follows the \<^verbatim>\<open>await\<close>: status and headers go to \<^verbatim>\<open>set\<close>, the data is returned.\<close>

definition relayStatus :: "sink \<Rightarrow> context_set \<Rightarrow> context_set" where
  "relayStatus s ctx =
     ctx\<lparr>setStatus := statusCode s, setHeaders := setHeaders ctx ++ sinkHeaders s\<rparr>"

definition relayData :: "(string \<Rightarrow> 'n json option) \<Rightarrow> string option \<Rightarrow> 'n json option" where
  "relayData parse responseData =
     (case responseData of
        None \<Rightarrow> None
      | Some data \<Rightarrow>
          if data = [] then None
          else (case parse data of
                  Some v \<Rightarrow> Some v
                | None \<Rightarrow> Some (JString data)))"

definition post_mcp_part000 ::
  "(string \<Rightarrow> 'n json option) \<Rightarrow> ('t, 'b) engine \<Rightarrow> (string \<rightharpoonup> 't) \<Rightarrow> (string \<rightharpoonup> string) \<Rightarrow> 'b
     \<Rightarrow> context_set \<Rightarrow> ('t, 'b, 'n) replied" where
  "post_mcp_part000 parse eng sessions inHeaders inBody ctx =
     (let caught = (\<lambda>cs.
            \<lparr>sessionsLeft = sessions, handed = cs,
             setLeft = ctx\<lparr>setStatus := 500,
                           setHeaders := (setHeaders ctx)(''Content-Type'' \<mapsto> ''application/json'')\<rparr>,
             returned = Resolved (Some (JString (jsonRpcError ''-32603'' ''Internal server error'')))\<rparr>);
          forward = (\<lambda>t.
            let cs = [\<lparr>callee = t, reqMethod = ''POST'', reqHeaders = inHeaders,
                        reqBody = Some inBody, reqUrl = ''/mcp''\<rparr>]
            in case await_part000 (map Call (sync (behaviour eng)) @ later (behaviour eng)) freshSink of
                 Hangs \<Rightarrow> \<lparr>sessionsLeft = sessions, handed = cs, setLeft = ctx, returned = Pending\<rparr>
               | Throws \<Rightarrow> caught cs
               | Returns s \<Rightarrow>
                   \<lparr>sessionsLeft = sessions, handed = cs, setLeft = relayStatus s ctx,
                    returned = Resolved (relayData parse (sinkData s))\<rparr>)
      in case route sessions (inHeaders ''mcp-session-id'') (isInitializeRequest eng inBody) of
           Reuse (Some t) \<Rightarrow> forward t
         | Reuse None \<Rightarrow> caught []
         | Initialize \<Rightarrow> if connects eng then forward (created eng) else caught []
         | Invalid \<Rightarrow>
             \<lparr>sessionsLeft = sessions, handed = [],
              setLeft = ctx\<lparr>setStatus := 400,
                            setHeaders := (setHeaders ctx)(''Content-Type'' \<mapsto> ''application/json'')\<rparr>,
              returned = Resolved (Some (JString
                (jsonRpcError ''-32000'' ''Bad Request: No valid session ID provided'')))\<rparr>)"

text \<open>
  \<^verbatim>\<open>app.delete('/mcp', ...)\<close> of this file has a guard, removes the entry and then forwards
  the call to the transport. It has no \<^verbatim>\<open>try\<close>: what the \<^verbatim>\<open>await\<close> throws rejects the
  handler's promise.
\<close>

definition delete_mcp_part000 ::
  "(string \<Rightarrow> 'n json option) \<Rightarrow> ('t, 'b) engine \<Rightarrow> (string \<rightharpoonup> 't) \<Rightarrow> (string \<rightharpoonup> string)
     \<Rightarrow> context_set \<Rightarrow> ('t, 'b, 'n) replied" where
  "delete_mcp_part000 parse eng sessions inHeaders ctx =
     (let invalid =
            \<lparr>sessionsLeft = sessions, handed = [], setLeft = ctx\<lparr>setStatus := 400\<rparr>,
             returned = Resolved (Some (JString ''Invalid or missing session ID''))\<rparr>
      in case inHeaders ''mcp-session-id'' of
           None \<Rightarrow> invalid
         | Some sid \<Rightarrow>
             if sid = [] then invalid
             else (case property sessions sid of
                     Undefined \<Rightarrow> invalid
                   | Inherited \<Rightarrow>
                       \<lparr>sessionsLeft = sessions, handed = [], setLeft = ctx,
                        returned = Rejected TypeError\<rparr>
                   | Entry t \<Rightarrow>
                       (let cs = [\<lparr>callee = t, reqMethod = ''DELETE'', reqHeaders = inHeaders,
                                   reqBody = None, reqUrl = ''/mcp''\<rparr>]
                        in case await_part000
                                  (map Call (sync (behaviour eng)) @ later (behaviour eng)) freshSink of
                             Hangs \<Rightarrow>
                               \<lparr>sessionsLeft = sessions(sid := None), handed = cs, setLeft = ctx,
                                returned = Pending\<rparr>
                           | Throws \<Rightarrow>
                               \<lparr>sessionsLeft = sessions(sid := None), handed = cs, setLeft = ctx,
                                returned = Rejected Thrown\<rparr>
                           | Returns s \<Rightarrow>
                               \<lparr>sessionsLeft = sessions(sid := None), handed = cs,
                                setLeft = relayStatus s ctx,
                                returned = Resolved (relayData parse (sinkData s))\<rparr>)))"

section \<open>The POST handler of src/unnamed/part_002\<close>

text \<open>
  Here \<^verbatim>\<open>end\<close> of the sink writes status and headers to \<^verbatim>\<open>set\<close> itself, every time it is
  called, and returns the parsed data. The handler calls \<^verbatim>\<open>handleRequest\<close> first and only
  then wraps \<^verbatim>\<open>res.end\<close> so that it resolves the promise: the calls of \<open>sync\<close> reach the
  unwrapped \<^verbatim>\<open>end\<close>. The promise of \<^verbatim>\<open>handleRequest\<close> resolves the handler's promise with
  \<^verbatim>\<open>undefined\<close> when it is fulfilled and rejects it when it is rejected.
\<close>

record 'n wrapped =
  sinkNow :: sink
  setNow :: context_set
  pledge :: "'n json option future"

definition originalEnd ::
  "(string \<Rightarrow> 'n json option) \<Rightarrow> string option \<Rightarrow> 'n wrapped \<Rightarrow> 'n wrapped \<times> 'n json option" where
  "originalEnd parse data a =
     (a\<lparr>setNow := relayStatus (sinkNow a) (setNow a)\<rparr>, relayData parse data)"

fun call_part002 :: "(string \<Rightarrow> 'n json option) \<Rightarrow> sinkCall \<Rightarrow> 'n wrapped \<Rightarrow> 'n wrapped" where
  "call_part002 parse (SetHeader k v) a =
     a\<lparr>sinkNow := (sinkNow a)\<lparr>sinkHeaders := (sinkHeaders (sinkNow a))(k \<mapsto> v)\<rparr>\<rparr>"
| "call_part002 parse (WriteHead st hs) a =
     a\<lparr>sinkNow := (sinkNow a)\<lparr>statusCode := st,
                                 sinkHeaders := (case hs of
                                                   None \<Rightarrow> sinkHeaders (sinkNow a)
                                                 | Some h \<Rightarrow> sinkHeaders (sinkNow a) ++ h)\<rparr>\<rparr>"
| "call_part002 parse Write a = a"
| "call_part002 parse (End data) a = fst (originalEnd parse data a)"

fun sync_part002 :: "(string \<Rightarrow> 'n json option) \<Rightarrow> sinkCall list \<Rightarrow> 'n wrapped \<Rightarrow> 'n wrapped" where
  "sync_part002 parse [] a = a"
| "sync_part002 parse (c # cs) a = sync_part002 parse cs (call_part002 parse c a)"

text \<open>After the wrapping, \<^verbatim>\<open>end\<close> calls the original and resolves the promise with its result.\<close>

fun later_part002 :: "(string \<Rightarrow> 'n json option) \<Rightarrow> signal list \<Rightarrow> 'n wrapped \<Rightarrow> 'n wrapped" where
  "later_part002 parse [] a = a"
| "later_part002 parse (Call (End data) # ss) a =
     later_part002 parse ss
       (case originalEnd parse data a of
          (a', result) \<Rightarrow> a'\<lparr>pledge := resolve result (pledge a')\<rparr>)"
| "later_part002 parse (Call c # ss) a = later_part002 parse ss (call_part002 parse c a)"
| "later_part002 parse (Fulfilled # ss) a =
     later_part002 parse ss (a\<lparr>pledge := resolve None (pledge a)\<rparr>)"
| "later_part002 parse (Failed # ss) a =
     later_part002 parse ss (a\<lparr>pledge := reject Thrown (pledge a)\<rparr>)"

definition drive_part002 :: "(string \<Rightarrow> 'n json option) \<Rightarrow> run \<Rightarrow> context_set \<Rightarrow> 'n wrapped" where
  "drive_part002 parse r ctx =
     later_part002 parse (later r)
       (sync_part002 parse (sync r) \<lparr>sinkNow = freshSink, setNow = ctx, pledge = Pending\<rparr>)"

definition rpcErrorObject :: "'n \<Rightarrow> string \<Rightarrow> 'n json" where
  "rpcErrorObject code message =
     JObject [(''jsonrpc'', JString ''2.0''),
              (''error'', JObject [(''code'', JNumber code), (''message'', JString message)]),
              (''id'', JNull)]"

definition post_mcp_part002 ::
  "(string \<Rightarrow> 'n json option) \<Rightarrow> ('t, 'b) engine \<Rightarrow> (string \<rightharpoonup> 't) \<Rightarrow> (string \<rightharpoonup> string) \<Rightarrow> 'b
     \<Rightarrow> context_set \<Rightarrow> ('t, 'b, 'n :: neg_numeral) replied" where
  "post_mcp_part002 parse eng sessions inHeaders inBody ctx =
     (let forward = (\<lambda>t.
            let a = drive_part002 parse (behaviour eng) ctx
            in \<lparr>sessionsLeft = sessions,
                handed = [\<lparr>callee = t, reqMethod = ''POST'', reqHeaders = inHeaders,
                           reqBody = Some inBody, reqUrl = ''/mcp''\<rparr>],
                setLeft = setNow a, returned = pledge a\<rparr>)
      in case route sessions (inHeaders ''mcp-session-id'') (isInitializeRequest eng inBody) of
           Reuse (Some t) \<Rightarrow> forward t
         | Reuse None \<Rightarrow>
             \<lparr>sessionsLeft = sessions, handed = [], setLeft = ctx, returned = Rejected TypeError\<rparr>
         | Initialize \<Rightarrow>
             if connects eng then forward (created eng)
             else \<lparr>sessionsLeft = sessions, handed = [], setLeft = ctx\<lparr>setStatus := 500\<rparr>,
                   returned = Resolved (Some (rpcErrorObject (- 32603) ''Internal server error''))\<rparr>
         | Invalid \<Rightarrow>
             \<lparr>sessionsLeft = sessions, handed = [], setLeft = ctx\<lparr>setStatus := 400\<rparr>,
              returned = Resolved (Some (rpcErrorObject (- 32000)
                ''Bad Request: No valid session ID provided''))\<rparr>)"

section \<open>Sample collaborators and runs\<close>

text \<open>
  For the closed examples: transports are numbers, a request body is the answer of
  \<^verbatim>\<open>isInitializeRequest\<close> on it, and the engine connects. The runs: a transport that rejects
  without ending the sink; one that ends the sink twice, with different statuses; one that
  ends it once; one that ends it before \<^verbatim>\<open>handleRequest\<close> returns and rejects afterwards; one
  that answers a termination; one that writes the status 418.
\<close>

definition engineWith :: "run \<Rightarrow> (nat, bool) engine" where
  "engineWith r = \<lparr>isInitializeRequest = (\<lambda>b. b), created = 0, connects = True, behaviour = r\<rparr>"

definition rejectingRun :: run where
  "rejectingRun = \<lparr>sync = [], later = [Failed]\<rparr>"

definition endedTwiceRun :: run where
  "endedTwiceRun =
     \<lparr>sync = [],
      later = [Call (WriteHead 200 None), Call (End (Some ''first'')),
               Call (WriteHead 500 None), Call (End (Some ''second''))]\<rparr>"

definition endedOnceRun :: run where
  "endedOnceRun = \<lparr>sync = [], later = [Call (WriteHead 200 None), Call (End (Some ''first''))]\<rparr>"

definition endedThenRejectedRun :: run where
  "endedThenRejectedRun = \<lparr>sync = [End (Some ''first'')], later = [Failed]\<rparr>"

definition closingRun :: run where
  "closingRun = \<lparr>sync = [], later = [Call (WriteHead 200 None), Call (End None), Fulfilled]\<rparr>"

definition teapotRun :: run where
  "teapotRun = \<lparr>sync = [WriteHead 418 None], later = [Call (End None), Fulfilled]\<rparr>"

text \<open>The signal that is a call of \<^verbatim>\<open>end\<close>.\<close>

fun isEnd :: "signal \<Rightarrow> bool" where
  "isEnd (Call (End data)) = True"
| "isEnd s = False"

section \<open>Properties of the request descriptor parser\<close>

text \<open>
  Each step of the loop, by the kind of token at the cursor, and an induction rule that follows
  these steps.
\<close>

lemma url_addHeader [simp]: "url (addHeader h d) = url d"
  by (simp add: addHeader_def split: list.splits)

lemma url_addData [simp]: "url (addData parse x d) = url d"
  by (simp add: addData_def split: option.splits)

lemma httpMethod_addHeader [simp]: "httpMethod (addHeader h d) = httpMethod d"
  by (simp add: addHeader_def split: list.splits)

lemma httpMethod_addData [simp]: "httpMethod (addData parse x d) = httpMethod d"
  by (simp add: addData_def split: option.splits)

lemma body_addHeader [simp]: "body (addHeader h d) = body d"
  by (simp add: addHeader_def split: list.splits)

lemma headers_addData [simp]: "headers (addData parse x d) = headers d"
  by (simp add: addData_def split: option.splits)

lemmas flag_defs = takesArgument_def isMethodFlag_def isHeaderFlag_def isDataFlag_def

lemma not_flag_curl [simp]: "\<not> takesArgument ''curl''"
  by (simp add: flag_defs)

lemma walk_curl: "walk parse (''curl'' # rest) d = walk parse rest d"
  by simp

lemma walk_method_last: "isMethodFlag p \<Longrightarrow> walk parse [p] d = d\<lparr>httpMethod := ''GET''\<rparr>"
  unfolding isMethodFlag_def by (erule disjE; simp)

lemma walk_method:
  "isMethodFlag p \<Longrightarrow> walk parse (p # t # rest) d =
     walk parse rest (d\<lparr>httpMethod := (if toUpperCase t = [] then ''GET'' else toUpperCase t)\<rparr>)"
  unfolding isMethodFlag_def by (erule disjE; simp)

lemma walk_header_last: "isHeaderFlag p \<Longrightarrow> walk parse [p] d = d"
  unfolding isHeaderFlag_def by (erule disjE; simp)

lemma walk_header:
  "isHeaderFlag p \<Longrightarrow> walk parse (p # t # rest) d = walk parse rest (addHeader (removeQuotes t) d)"
  unfolding isHeaderFlag_def by (erule disjE; simp)

lemma walk_data_last: "isDataFlag p \<Longrightarrow> walk parse [p] d = d"
  unfolding isDataFlag_def by (erule disjE; simp)

lemma walk_data:
  "isDataFlag p \<Longrightarrow> walk parse (p # t # rest) d =
     walk parse rest (addData parse (stripWrappingQuotes t) d)"
  unfolding isDataFlag_def by (erule disjE; simp)

lemma walk_url:
  "p \<noteq> ''curl'' \<Longrightarrow> \<not> takesArgument p \<Longrightarrow> \<not> startsWithDash p \<Longrightarrow> url d = [] \<Longrightarrow>
     walk parse (p # rest) d = walk parse rest (d\<lparr>url := removeQuotes p\<rparr>)"
  by (auto simp: flag_defs)

lemma walk_skip:
  "p \<noteq> ''curl'' \<Longrightarrow> \<not> takesArgument p \<Longrightarrow> startsWithDash p \<or> url d \<noteq> [] \<Longrightarrow>
     walk parse (p # rest) d = walk parse rest d"
  by (auto simp: flag_defs)

lemmas walk_steps = walk_curl walk_method_last walk_method walk_header_last walk_header
  walk_data_last walk_data walk_url walk_skip

lemma walk_cases [case_names Nil Curl MethodLast Method HeaderLast Header DataLast Data Url Skip]:
  assumes "\<And>d. P [] d"
    and "\<And>rest d. P rest d \<Longrightarrow> P (''curl'' # rest) d"
    and "\<And>p d. isMethodFlag p \<Longrightarrow> P [p] d"
    and "\<And>p t rest d. isMethodFlag p \<Longrightarrow>
           P rest (d\<lparr>httpMethod := (if toUpperCase t = [] then ''GET'' else toUpperCase t)\<rparr>) \<Longrightarrow>
           P (p # t # rest) d"
    and "\<And>p d. isHeaderFlag p \<Longrightarrow> P [p] d"
    and "\<And>p t rest d. isHeaderFlag p \<Longrightarrow> P rest (addHeader (removeQuotes t) d) \<Longrightarrow>
           P (p # t # rest) d"
    and "\<And>p d. isDataFlag p \<Longrightarrow> P [p] d"
    and "\<And>p t rest d. isDataFlag p \<Longrightarrow> P rest (addData parse (stripWrappingQuotes t) d) \<Longrightarrow>
           P (p # t # rest) d"
    and "\<And>p rest d. p \<noteq> ''curl'' \<Longrightarrow> \<not> takesArgument p \<Longrightarrow> \<not> startsWithDash p \<Longrightarrow>
           url d = [] \<Longrightarrow> P rest (d\<lparr>url := removeQuotes p\<rparr>) \<Longrightarrow> P (p # rest) d"
    and "\<And>p rest d. p \<noteq> ''curl'' \<Longrightarrow> \<not> takesArgument p \<Longrightarrow>
           startsWithDash p \<or> url d \<noteq> [] \<Longrightarrow> P rest d \<Longrightarrow> P (p # rest) d"
  shows "P ts (d :: 'n descriptor)"
proof (induction ts arbitrary: d rule: length_induct)
  case (1 ts)
  show ?case
  proof (cases ts)
    case Nil
    then show ?thesis using assms(1) by simp
  next
    case (Cons p rest)
    note ts = this
    consider (curl) "p = ''curl''" | (m) "isMethodFlag p" | (h) "isHeaderFlag p" | (dt) "isDataFlag p"
      | (other) "p \<noteq> ''curl''" "\<not> takesArgument p"
      by (auto simp: takesArgument_def)
    then show ?thesis
    proof cases
      case curl
      then show ?thesis using assms(2) 1 ts by simp
    next
      case m
      show ?thesis
      proof (cases rest)
        case Nil
        then show ?thesis using assms(3) m ts by simp
      next
        case (Cons t rest')
        then show ?thesis using assms(4)[OF m] 1 ts by simp
      qed
    next
      case h
      show ?thesis
      proof (cases rest)
        case Nil
        then show ?thesis using assms(5) h ts by simp
      next
        case (Cons t rest')
        then show ?thesis using assms(6)[OF h] 1 ts by simp
      qed
    next
      case dt
      show ?thesis
      proof (cases rest)
        case Nil
        then show ?thesis using assms(7) dt ts by simp
      next
        case (Cons t rest')
        then show ?thesis using assms(8)[OF dt] 1 ts by simp
      qed
    next
      case other
      show ?thesis
      proof (cases "\<not> startsWithDash p \<and> url d = []")
        case True
        then show ?thesis using assms(9) other 1 ts by simp
      next
        case False
        then show ?thesis using assms(10)[OF other] 1 ts by auto
      qed
    qed
  qed
qed

lemma flag_not_curl: "takesArgument p \<Longrightarrow> p \<noteq> ''curl''"
  using not_flag_curl by blast

lemma flag_takesArgument:
  "isMethodFlag p \<Longrightarrow> takesArgument p"
  "isHeaderFlag p \<Longrightarrow> takesArgument p"
  "isDataFlag p \<Longrightarrow> takesArgument p"
  by (simp_all add: takesArgument_def)

lemma urlCandidates_curl: "urlCandidates (''curl'' # rest) = urlCandidates rest"
  by simp

lemma urlCandidates_flag_last: "takesArgument p \<Longrightarrow> urlCandidates [p] = []"
  by (simp add: flag_not_curl)

lemma urlCandidates_flag: "takesArgument p \<Longrightarrow> urlCandidates (p # t # rest) = urlCandidates rest"
  by (simp add: flag_not_curl)

lemma urlCandidates_other:
  "p \<noteq> ''curl'' \<Longrightarrow> \<not> takesArgument p \<Longrightarrow>
     urlCandidates (p # rest) = (if startsWithDash p then urlCandidates rest else p # urlCandidates rest)"
  by simp
lemmas urlCandidates_steps = urlCandidates_curl urlCandidates_flag_last urlCandidates_flag
  urlCandidates_other

lemma wholeSteps_curl: "wholeSteps (''curl'' # rest) = wholeSteps rest"
  by simp

lemma wholeSteps_flag_last: "takesArgument p \<Longrightarrow> \<not> wholeSteps [p]"
  by simp

lemma wholeSteps_flag: "takesArgument p \<Longrightarrow> wholeSteps (p # t # rest) = wholeSteps rest"
  by simp

lemma wholeSteps_other: "\<not> takesArgument p \<Longrightarrow> wholeSteps (p # rest) = wholeSteps rest"
  by simp
lemmas wholeSteps_steps = wholeSteps_curl wholeSteps_flag_last wholeSteps_flag wholeSteps_other

lemma walk_append:
  "wholeSteps pre \<Longrightarrow> walk parse (pre @ rest) d = walk parse rest (walk parse pre d)"
  by (induction pre d rule: walk_cases [where parse = parse])
     (simp_all del: walk.simps(2) wholeSteps.simps(2)
        add: walk_steps wholeSteps_steps flag_takesArgument)

lemma url_walk_empty:
  "url (walk parse ts d) = [] \<longleftrightarrow> url d = [] \<and> (\<forall>t \<in> set (urlCandidates ts). removeQuotes t = [])"
  by (induction ts d rule: walk_cases [where parse = parse])
     (auto simp del: walk.simps(2) urlCandidates.simps(2)
        simp add: walk_steps urlCandidates_steps flag_takesArgument)

lemma url_walk_from:
  "url (walk parse ts d) = url d \<or> (\<exists>t \<in> set (urlCandidates ts). url (walk parse ts d) = removeQuotes t)"
  by (induction ts d rule: walk_cases [where parse = parse])
     (auto simp del: walk.simps(2) urlCandidates.simps(2)
        simp add: walk_steps urlCandidates_steps flag_takesArgument)

lemma httpMethod_walk_unchanged:
  "\<forall>p \<in> set ts. \<not> isMethodFlag p \<Longrightarrow> httpMethod (walk parse ts d) = httpMethod d"
  by (induction ts d rule: walk_cases [where parse = parse])
     (simp_all del: walk.simps(2) add: walk_steps flag_takesArgument)

lemma body_walk_unchanged:
  "\<forall>p \<in> set ts. \<not> isDataFlag p \<Longrightarrow> body (walk parse ts d) = body d"
  by (induction ts d rule: walk_cases [where parse = parse])
     (simp_all del: walk.simps(2) add: walk_steps flag_takesArgument)

lemma parse_result:
  "parseCurlCommand parse cmd =
     (if \<forall>t \<in> set (urlCandidates (splitWs cmd)). removeQuotes t = []
      then Inl (Error ''No URL found in CURL command'')
      else Inr (walk parse (splitWs cmd) initial))"
  by (simp add: parseCurlCommand_def Let_def url_walk_empty initial_def)

lemma parse_returns:
  "\<exists>u \<in> set (urlCandidates (splitWs cmd)). removeQuotes u \<noteq> [] \<Longrightarrow>
     parseCurlCommand parse cmd = Inr (walk parse (splitWs cmd) initial)"
  by (auto simp: parse_result)

text \<open>
  The command of the tool's own description and of the documentation resource, with the host
  and the data of the specification's example:
  \<^verbatim>\<open>curl -X POST https://example.test/x -H 'Content-Type: application/json' -d '{"a":1}'\<close>
\<close>

lemma splitOn_nonempty [simp]: "splitOn sep s \<noteq> []"
  by (induction s) (auto split: list.splits)

lemma joinWith_splitOn: "joinWith sep (splitOn sep s) = s"
proof (induction s)
  case Nil
  then show ?case by simp
next
  case (Cons c s)
  show ?case
  proof (cases "c = sep")
    case True
    then show ?thesis using Cons by (cases "splitOn sep s") auto
  next
    case False
    then show ?thesis using Cons 
      by (cases "splitOn sep s"; cases "tl (splitOn sep s)") auto
  qed
qed

lemma splitOn_head: "splitOn sep s = key # valueParts \<Longrightarrow> key = takeWhile (\<lambda>c. c \<noteq> sep) s"
  by (induction s arbitrary: key valueParts) (auto split: list.splits if_splits)

lemma splitOn_tail:
  "splitOn sep s = key # valueParts \<Longrightarrow> valueParts \<noteq> [] \<Longrightarrow>
     joinWith sep valueParts = tl (dropWhile (\<lambda>c. c \<noteq> sep) s)"
proof (induction s arbitrary: key valueParts)
  case Nil
  then show ?case by simp
next
  case (Cons c s)
  show ?case
  proof (cases "c = sep")
    case True
    with Cons.prems have "valueParts = splitOn sep s" by simp
    then show ?thesis using True by (simp add: joinWith_splitOn)
  next
    case False
    with Cons.prems obtain f where "splitOn sep s = f # valueParts"
      by (auto split: list.splits)
    from Cons.IH[OF this Cons.prems(2)] False show ?thesis by simp
  qed
qed

lemma headers_addHeader_from:
  assumes "headers (addHeader h d) k = Some v"
  shows "headers d k = Some v \<or>
         (k = trim (takeWhile (\<lambda>c. c \<noteq> CHR '':'') h) \<and>
          v = trim (tl (dropWhile (\<lambda>c. c \<noteq> CHR '':'') h)))"
proof (cases "splitOn CHR '':'' h")
  case Nil
  then show ?thesis by simp
next
  case (Cons key valueParts)
  show ?thesis
  proof (cases "h \<noteq> [] \<and> key \<noteq> [] \<and> valueParts \<noteq> [] \<and> trim key \<noteq> ''__proto__''")
    case True
    then have "headers (addHeader h d) = (headers d)(trim key \<mapsto> trim (joinWith CHR '':'' valueParts))"
      using Cons by (simp add: addHeader_def)
    moreover have "key = takeWhile (\<lambda>c. c \<noteq> CHR '':'') h"
      using Cons by (rule splitOn_head)
    moreover have "joinWith CHR '':'' valueParts = tl (dropWhile (\<lambda>c. c \<noteq> CHR '':'') h)"
      using Cons True by (simp add: splitOn_tail)
    ultimately show ?thesis using assms by (auto split: if_splits)
  next
    case False
    then have "addHeader h d = d"
      using Cons by (auto simp: addHeader_def)
    then show ?thesis using assms by simp
  qed
qed

lemma headers_walk_from:
  "headers (walk parse ts d) k = Some v \<Longrightarrow>
     headers d k = Some v \<or>
     (\<exists>t \<in> set ts. k = trim (takeWhile (\<lambda>c. c \<noteq> CHR '':'') (removeQuotes t)) \<and>
                    v = trim (tl (dropWhile (\<lambda>c. c \<noteq> CHR '':'') (removeQuotes t))))"
proof (induction ts d rule: walk_cases [where parse = parse])
  case (Header p t rest d)
  from Header.IH Header.prems Header.hyps
  have "headers (addHeader (removeQuotes t) d) k = Some v \<or>
        (\<exists>t \<in> set rest. k = trim (takeWhile (\<lambda>c. c \<noteq> CHR '':'') (removeQuotes t)) \<and>
                    v = trim (tl (dropWhile (\<lambda>c. c \<noteq> CHR '':'') (removeQuotes t))))"
    by (simp add: walk_header del: walk.simps(2))
  then show ?case
    using headers_addHeader_from [of "removeQuotes t" d k v] by auto
qed (simp_all del: walk.simps(2) add: walk_steps, blast+)

lemma set_trim: "set (trim s) \<subseteq> set s"
proof -
  have "set (trim s) = set (dropWhile isSpace (rev (dropWhile isSpace s)))"
    by (simp add: trim_def)
  also have "\<dots> \<subseteq> set (rev (dropWhile isSpace s))"
    by (rule set_dropWhileD [THEN subsetI])
  also have "\<dots> \<subseteq> set s"
    using set_dropWhileD by fastforce
  finally show ?thesis .
qed

lemma no_quote_removeQuotes: "c \<in> set (removeQuotes s) \<Longrightarrow> \<not> isQuote c"
  by (simp add: removeQuotes_def)

lemma no_quote_key: "c \<in> set (trim (takeWhile P (removeQuotes s))) \<Longrightarrow> \<not> isQuote c"
  using set_trim set_takeWhileD no_quote_removeQuotes by fast

lemma no_quote_value: "c \<in> set (trim (tl (dropWhile P (removeQuotes s)))) \<Longrightarrow> \<not> isQuote c"
proof -
  assume "c \<in> set (trim (tl (dropWhile P (removeQuotes s))))"
  then have "c \<in> set (tl (dropWhile P (removeQuotes s)))" using set_trim by fast
  then have "c \<in> set (dropWhile P (removeQuotes s))" by (cases "dropWhile P (removeQuotes s)") auto
  then have "c \<in> set (removeQuotes s)" by (rule set_dropWhileD)
  then show ?thesis by (rule no_quote_removeQuotes)
qed

lemmas parser_defs = initial_def addHeader_def addData_def removeQuotes_def isQuote_def
  stripWrappingQuotes_def stripLeadingQuote_def stripTrailingQuote_def startsWithDash_def
  toUpperCase_def toUpperChar_def trim_def isSpace_def

text \<open>The tokens of the example command.\<close>

lemma exampleCommand_tokens:
  "splitWs exampleCommand =
     [''curl'', ''-X'', ''POST'', ''https://example.test/x'', ''-H'', '''Content-Type:'',
      ''application/json'' @ [CHR 0x27], ''-d'', '''{\"a\":1}'' @ [CHR 0x27]]"
  by (simp add: exampleCommand_def isSpace_def)

text \<open>
  C1. The example command does not parse to the descriptor with the header
  \<^verbatim>\<open>Content-Type: application/json\<close>. The split at white space cuts the quoted header in
  two; the first half \<^verbatim>\<open>'Content-Type:\<close> gives the header \<^verbatim>\<open>Content-Type\<close> the empty
  value, and the second half \<^verbatim>\<open>application/json'\<close> is dropped, the URL being set already.
  URL, method and body are as expected, the body being whatever \<^verbatim>\<open>JSON.parse\<close> returns for
  \<^verbatim>\<open>{"a":1}\<close>.
\<close>

theorem parseCurlCommand_example_header_empty:
  "parseCurlCommand parse exampleCommand =
     Inr \<lparr>url = ''https://example.test/x'', httpMethod = ''POST'',
          headers = [''Content-Type'' \<mapsto> []],
          body = Some (case parse ''{\"a\":1}'' of
                         None \<Rightarrow> JString ''{\"a\":1}''
                       | Some v \<Rightarrow> v)\<rparr>"
  unfolding parseCurlCommand_def exampleCommand_tokens
  by (simp add: initial_def addHeader_def addData_def removeQuotes_def isQuote_def
      stripWrappingQuotes_def stripLeadingQuote_def stripTrailingQuote_def startsWithDash_def
      toUpperCase_def toUpperChar_def trim_def isSpace_def split: option.split)

text \<open>
  C7. Parsing fails with the error \<^verbatim>\<open>No URL found in CURL command\<close> (the failure the
  specification calls \<^verbatim>\<open>MalformedCommand\<close>) exactly when no token the loop meets outside the
  flags and their arguments fills the URL slot: there is no such token that does not start with
  a dash, or each of them is empty once its quotes are removed. In particular a command without
  any such token fails.
\<close>

theorem no_url_fails:
  "(\<forall>t \<in> set (urlCandidates (splitWs cmd)). removeQuotes t = []) \<longleftrightarrow>
     parseCurlCommand parse cmd = Inl (Error ''No URL found in CURL command'')"
  by (simp add: parse_result)

theorem no_url_fails_witness:
  "parseCurlCommand jsonRejects ''curl -X POST -H a:b -d'' = Inl (Error ''No URL found in CURL command'')"
  by (rule iffD1 [OF no_url_fails]) (simp add: isSpace_def flag_defs)

text \<open>
  C9. For a command that parses: a method flag that the loop meets (\<open>wholeSteps pre\<close>), that is
  followed by a token and has no method flag behind it, makes the method that token in upper
  case, whatever the token is; a command without a method flag has the method \<^verbatim>\<open>GET\<close>; and so
  has a command whose last token is a method flag that the loop meets.
\<close>

theorem method_flag_upper_cased:
  assumes "parseCurlCommand parse cmd = Inr d"
  shows "(splitWs cmd = pre @ flag # t # post \<and> isMethodFlag flag \<and> wholeSteps pre \<and>
            (\<forall>p \<in> set post. \<not> isMethodFlag p) \<and> t \<noteq> [] \<longrightarrow> httpMethod d = toUpperCase t) \<and>
         ((\<forall>p \<in> set (splitWs cmd). \<not> isMethodFlag p) \<longrightarrow> httpMethod d = ''GET'') \<and>
         (splitWs cmd = pre' @ [flag'] \<and> isMethodFlag flag' \<and> wholeSteps pre' \<longrightarrow>
            httpMethod d = ''GET'')"
proof -
  from assms have d: "d = walk parse (splitWs cmd) initial"
    by (simp add: parse_result split: if_splits)
  have one: "httpMethod d = toUpperCase t"
    if "splitWs cmd = pre @ flag # t # post" "isMethodFlag flag" "wholeSteps pre"
       "\<forall>p \<in> set post. \<not> isMethodFlag p" "t \<noteq> []"
  proof -
    have "d = walk parse post
                ((walk parse pre initial)\<lparr>httpMethod := (if toUpperCase t = [] then ''GET'' else toUpperCase t)\<rparr>)"
      using that(1-3) by (simp add: d walk_append walk_method del: walk.simps(2))
    then have "httpMethod d = (if toUpperCase t = [] then ''GET'' else toUpperCase t)"
      using that(4) by (simp add: httpMethod_walk_unchanged)
    then show ?thesis using that(5) by (simp add: toUpperCase_def)
  qed
  have two: "httpMethod d = ''GET''" if "\<forall>p \<in> set (splitWs cmd). \<not> isMethodFlag p"
    using that by (simp add: d httpMethod_walk_unchanged initial_def)
  have three: "httpMethod d = ''GET''"
    if "splitWs cmd = pre' @ [flag']" "isMethodFlag flag'" "wholeSteps pre'"
    using that by (simp add: d walk_append walk_method_last del: walk.simps(2))
  from one two three show ?thesis by blast
qed

theorem method_flag_upper_cased_witness:
  "(\<exists>d. parseCurlCommand jsonRejects ''curl -X post http://a'' = Inr d \<and> httpMethod d = ''POST'') \<and>
   (\<exists>d. parseCurlCommand jsonRejects ''curl http://a'' = Inr d \<and> httpMethod d = ''GET'') \<and>
   (\<exists>d. parseCurlCommand jsonRejects ''curl http://a -X'' = Inr d \<and> httpMethod d = ''GET'')"
proof -
  have t1: "splitWs ''curl -X post http://a'' = [''curl''] @ ''-X'' # ''post'' # [''http://a'']"
    and t2: "splitWs ''curl http://a'' = [''curl'', ''http://a'']"
    and t3: "splitWs ''curl http://a -X'' = [''curl'', ''http://a''] @ [''-X'']"
    by (simp_all add: isSpace_def)
  have p1: "parseCurlCommand jsonRejects ''curl -X post http://a'' =
              Inr (walk jsonRejects (splitWs ''curl -X post http://a'') initial)"
    and p2: "parseCurlCommand jsonRejects ''curl http://a'' =
              Inr (walk jsonRejects (splitWs ''curl http://a'') initial)"
    and p3: "parseCurlCommand jsonRejects ''curl http://a -X'' =
              Inr (walk jsonRejects (splitWs ''curl http://a -X'') initial)"
    by (rule parse_returns, simp add: isSpace_def flag_defs startsWithDash_def removeQuotes_def isQuote_def)+
  have u: "toUpperCase ''post'' = ''POST''"
    by (simp add: toUpperCase_def toUpperChar_def)
  have m1: "httpMethod (walk jsonRejects (splitWs ''curl -X post http://a'') initial) = toUpperCase ''post''"
    by (rule mp [OF conjunct1 [OF method_flag_upper_cased [OF p1,
          of "[''curl'']" "''-X''" "''post''" "[''http://a'']"]]])
       (simp add: isSpace_def flag_defs)
  have m2: "httpMethod (walk jsonRejects (splitWs ''curl http://a'') initial) = ''GET''"
    by (rule mp [OF conjunct1 [OF conjunct2 [OF method_flag_upper_cased [OF p2]]]])
       (simp add: isSpace_def flag_defs)
  have m3: "httpMethod (walk jsonRejects (splitWs ''curl http://a -X'') initial) = ''GET''"
    by (rule mp [OF conjunct2 [OF conjunct2 [OF method_flag_upper_cased [OF p3,
          of _ _ _ _ "[''curl'', ''http://a'']" "''-X''"]]]])
       (simp add: isSpace_def flag_defs)
  show ?thesis
    using p1 p2 p3 m1 [unfolded u] m2 m3 by blast
qed

text \<open>
  C8, as stated, fails for a data token that is empty once its wrapping quotes are stripped:
  for \<^verbatim>\<open>curl http://x -d ''\<close> no JSON parse is tried and the body stays absent; it does not
  become the stripped text.
\<close>

theorem data_flag_empty_counterexample:
  "stripWrappingQuotes [CHR 0x27, CHR 0x27] = [] \<and>
   parseCurlCommand jsonRejects emptyDataCommand =
     Inr \<lparr>url = ''http://x'', httpMethod = ''GET'', headers = Map.empty, body = None\<rparr>"
proof -
  have tokens: "splitWs emptyDataCommand = [''curl'', ''http://x'', ''-d'', [CHR 0x27, CHR 0x27]]"
    by (simp add: emptyDataCommand_def isSpace_def)
  show ?thesis
    unfolding parseCurlCommand_def tokens by (simp add: parser_defs)
qed

text \<open>
  C8, amended. Let the loop meet a data flag (\<open>wholeSteps pre\<close>) that is followed by a token
  \<open>t\<close> and has no data flag behind it. Parsing fails only for want of a URL, whatever
  \<^verbatim>\<open>JSON.parse\<close> does with the data. Where it returns a descriptor, one quote character has
  been stripped at each end of \<open>t\<close>: when what is left is not empty, the body is its JSON value,
  or the stripped text itself when it is not JSON; when nothing is left, the body is what it
  was before the flag.
\<close>

theorem data_flag_body:
  assumes "splitWs cmd = pre @ flag # t # post"
    and "isDataFlag flag"
    and "wholeSteps pre"
    and "\<forall>p \<in> set post. \<not> isDataFlag p"
  shows "case parseCurlCommand parse cmd of
           Inl e \<Rightarrow>
             e = Error ''No URL found in CURL command'' \<and>
             (\<forall>u \<in> set (urlCandidates (splitWs cmd)). removeQuotes u = [])
         | Inr d \<Rightarrow>
             body d =
               (if stripWrappingQuotes t = [] then body (walk parse pre initial)
                else (case parse (stripWrappingQuotes t) of
                        Some v \<Rightarrow> Some v
                      | None \<Rightarrow> Some (JString (stripWrappingQuotes t))))"
proof -
  have "walk parse (splitWs cmd) initial =
          walk parse post (addData parse (stripWrappingQuotes t) (walk parse pre initial))"
    using assms(1-3) by (simp add: walk_append walk_data del: walk.simps(2))
  then have "body (walk parse (splitWs cmd) initial) =
               body (addData parse (stripWrappingQuotes t) (walk parse pre initial))"
    using assms(4) by (simp add: body_walk_unchanged)
  also have "\<dots> = (if stripWrappingQuotes t = [] then body (walk parse pre initial)
                else (case parse (stripWrappingQuotes t) of
                        Some v \<Rightarrow> Some v
                      | None \<Rightarrow> Some (JString (stripWrappingQuotes t))))"
    by (simp add: addData_def split: option.split)
  finally show ?thesis
    by (simp add: parse_result)
qed

theorem data_flag_body_witness:
  "\<exists>d. parseCurlCommand jsonRejects dataCommand = Inr d \<and> body d = Some (JString ''hello'')"
proof -
  have tokens: "splitWs dataCommand = [''curl'', ''http://a''] @ ''-d'' # ('''hello'' @ [CHR 0x27]) # []"
    by (simp add: dataCommand_def isSpace_def)
  have strip: "stripWrappingQuotes ('''hello'' @ [CHR 0x27]) = ''hello''"
    by (simp add: parser_defs)
  have p: "parseCurlCommand jsonRejects dataCommand =
             Inr (walk jsonRejects (splitWs dataCommand) initial)"
    by (rule parse_returns) (simp add: tokens flag_defs parser_defs)
  have "case parseCurlCommand jsonRejects dataCommand of
           Inl e \<Rightarrow>
             e = Error ''No URL found in CURL command'' \<and>
             (\<forall>u \<in> set (urlCandidates (splitWs dataCommand)). removeQuotes u = [])
         | Inr d \<Rightarrow>
             body d =
               (if stripWrappingQuotes ('''hello'' @ [CHR 0x27]) = []
                then body (walk jsonRejects [''curl'', ''http://a''] initial)
                else (case jsonRejects (stripWrappingQuotes ('''hello'' @ [CHR 0x27])) of
                        Some v \<Rightarrow> Some v
                      | None \<Rightarrow> Some (JString (stripWrappingQuotes ('''hello'' @ [CHR 0x27])))))"
    by (rule data_flag_body [where pre = "[''curl'', ''http://a'']" and flag = "''-d''" and post = "[]"])
       (simp_all add: tokens flag_defs)
  then have "body (walk jsonRejects (splitWs dataCommand) initial) =
               (if ''hello'' = [] then body (walk jsonRejects [''curl'', ''http://a''] initial)
                else (case jsonRejects ''hello'' of
                        Some v \<Rightarrow> Some v
                      | None \<Rightarrow> Some (JString ''hello'')))"
    by (simp only: p strip sum.case)
  then have "body (walk jsonRejects (splitWs dataCommand) initial) = Some (JString ''hello'')"
    by (simp add: jsonRejects_def)
  then show ?thesis
    using p by blast
qed

text \<open>
  C10. In a descriptor the parser returns, the URL is one of the tokens the loop meets in URL
  position with every quote character removed, wherever it stands in the token, and every
  header name and value is cut from a token from which every quote character was removed
  first (the name is what stands before the first colon, the value what stands behind it, both
  trimmed). So no quote character is left in the URL or in a header.
\<close>

theorem quotes_removed_everywhere:
  assumes "parseCurlCommand parse cmd = Inr d"
  shows "(\<exists>t \<in> set (urlCandidates (splitWs cmd)). url d = removeQuotes t) \<and>
         (\<forall>c \<in> set (url d). \<not> isQuote c) \<and>
         (\<forall>k v. headers d k = Some v \<longrightarrow>
            (\<exists>t \<in> set (splitWs cmd).
               k = trim (takeWhile (\<lambda>c. c \<noteq> CHR '':'') (removeQuotes t)) \<and>
               v = trim (tl (dropWhile (\<lambda>c. c \<noteq> CHR '':'') (removeQuotes t)))) \<and>
            (\<forall>c \<in> set k \<union> set v. \<not> isQuote c))"
proof -
  from assms have d: "d = walk parse (splitWs cmd) initial" and nonempty: "url d \<noteq> []"
    by (auto simp: parseCurlCommand_def Let_def split: if_splits)
  from url_walk_from [of parse "splitWs cmd" initial] nonempty
  have u: "\<exists>t \<in> set (urlCandidates (splitWs cmd)). url d = removeQuotes t"
    by (auto simp: d initial_def)
  then have uq: "\<forall>c \<in> set (url d). \<not> isQuote c"
    using no_quote_removeQuotes by auto
  have h: "(\<exists>t \<in> set (splitWs cmd).
               k = trim (takeWhile (\<lambda>c. c \<noteq> CHR '':'') (removeQuotes t)) \<and>
               v = trim (tl (dropWhile (\<lambda>c. c \<noteq> CHR '':'') (removeQuotes t)))) \<and>
            (\<forall>c \<in> set k \<union> set v. \<not> isQuote c)"
    if "headers d k = Some v" for k v
  proof -
    from that have "headers (walk parse (splitWs cmd) initial) k = Some v" by (simp add: d)
    from headers_walk_from [OF this]
    obtain t where t: "t \<in> set (splitWs cmd)"
        "k = trim (takeWhile (\<lambda>c. c \<noteq> CHR '':'') (removeQuotes t))"
        "v = trim (tl (dropWhile (\<lambda>c. c \<noteq> CHR '':'') (removeQuotes t)))"
      by (auto simp: initial_def)
    then show ?thesis using no_quote_key no_quote_value by blast
  qed
  from u uq h show ?thesis by blast
qed

theorem quotes_removed_everywhere_witness:
  "\<exists>d. parseCurlCommand jsonRejects quotedCommand = Inr d \<and>
       url d = ''http://abc/x'' \<and> headers d ''X-T'' = Some ''v12''"
proof -
  have tokens: "splitWs quotedCommand = [''curl'', ''http://a'b\"c/x'', ''-H'', ''X-T:v'1\"2'']"
    by (simp add: quotedCommand_def isSpace_def)
  have p: "parseCurlCommand jsonRejects quotedCommand =
             Inr (walk jsonRejects (splitWs quotedCommand) initial)"
    by (rule parse_returns) (simp add: tokens flag_defs parser_defs)
  have "\<exists>t \<in> set (urlCandidates (splitWs quotedCommand)).
          url (walk jsonRejects (splitWs quotedCommand) initial) = removeQuotes t"
    by (rule conjunct1 [OF quotes_removed_everywhere [OF p]])
  moreover have "urlCandidates (splitWs quotedCommand) = [''http://a'b\"c/x'']"
    by (simp add: tokens flag_defs parser_defs)
  ultimately have "url (walk jsonRejects (splitWs quotedCommand) initial) = removeQuotes ''http://a'b\"c/x''"
    by simp
  then have "url (walk jsonRejects (splitWs quotedCommand) initial) = ''http://abc/x''"
    by (simp add: removeQuotes_def isQuote_def)
  moreover have "headers (walk jsonRejects (splitWs quotedCommand) initial) ''X-T'' = Some ''v12''"
    unfolding tokens by (simp add: parser_defs)
  ultimately show ?thesis using p by blast
qed

section \<open>Properties of the handlers\<close>

lemmas session_defs = route_def property_def objectPrototypeKeys_def

text \<open>
  A settled promise stays as it is. In src/index.ts only a call of \<^verbatim>\<open>end\<close> settles the
  handler's promise, and the first one fixes the response.
\<close>

lemma resolve_settled [simp]: "p \<noteq> Pending \<Longrightarrow> resolve v p = p"
  by (cases p) (simp_all add: resolve_def)

lemma resolve_pending [simp]: "resolve v Pending = Resolved v"
  by (simp add: resolve_def)

lemma reject_settled [simp]: "p \<noteq> Pending \<Longrightarrow> reject e p = p"
  by (cases p) (simp_all add: reject_def)

lemma reject_pending [simp]: "reject e Pending = Rejected e"
  by (simp add: reject_def)

lemma call_index_settled: "promise a \<noteq> Pending \<Longrightarrow> promise (call_index c a) = promise a"
  by (cases c) simp_all

lemma signals_index_settled:
  "promise a \<noteq> Pending \<Longrightarrow> promise (signals_index ss a) = promise a"
  by (induction ss a rule: signals_index.induct) (simp_all add: call_index_settled)

lemma call_index_not_end: "\<not> isEnd (Call c) \<Longrightarrow> promise (call_index c a) = promise a"
  by (cases c) simp_all

lemma signals_index_no_end:
  "\<forall>s \<in> set ss. \<not> isEnd s \<Longrightarrow> promise (signals_index ss a) = promise a"
  by (induction ss a rule: signals_index.induct) (simp_all add: call_index_not_end)

lemma signals_index_append:
  "signals_index (xs @ ys) a = signals_index ys (signals_index xs a)"
  by (induction xs a rule: signals_index.induct) simp_all

lemma signals_index_first_end:
  assumes "\<forall>s \<in> set pre. \<not> isEnd s" and "promise a = Pending"
  shows "promise (signals_index (pre @ Call (End data) # post) a) =
           Resolved \<lparr>status = statusCode (res (signals_index pre a)),
                     respHeaders = jsonHeaders ++ sinkHeaders (res (signals_index pre a)),
                     respBody = orEmpty data\<rparr>"
proof -
  have "promise (signals_index pre a) = Pending"
    using assms by (simp add: signals_index_no_end)
  then have "promise (call_index (End data) (signals_index pre a)) =
           Resolved \<lparr>status = statusCode (res (signals_index pre a)),
                     respHeaders = jsonHeaders ++ sinkHeaders (res (signals_index pre a)),
                     respBody = orEmpty data\<rparr>"
    by simp
  then show ?thesis
    by (simp add: signals_index_append signals_index_settled)
qed

text \<open>
  In src/unnamed/part_001 a call of \<^verbatim>\<open>end\<close> and the rejection of \<^verbatim>\<open>handleRequest\<close>
  both settle the handler's promise.
\<close>

lemma call_part001_settled: "promise a \<noteq> Pending \<Longrightarrow> promise (call_part001 c a) = promise a"
  by (cases c) (simp_all add: Let_def)

lemma signals_part001_settled:
  "promise a \<noteq> Pending \<Longrightarrow> promise (signals_part001 ss a) = promise a"
  by (induction ss a rule: signals_part001.induct) (simp_all add: call_part001_settled)

lemma signals_part001_settles:
  "Failed \<in> set ss \<or> (\<exists>s \<in> set ss. isEnd s) \<Longrightarrow> promise (signals_part001 ss a) \<noteq> Pending"
proof (induction ss a rule: signals_part001.induct)
  case (2 c ss a)
  show ?case
  proof (cases c)
    case (End data)
    have "promise (call_part001 (End data) a) \<noteq> Pending"
      by (cases "promise a") (simp_all add: Let_def)
    then show ?thesis using End by (simp add: signals_part001_settled)
  qed (use 2 in auto)
next
  case (4 ss a)
  have "promise (a\<lparr>promise := resolve internalError (promise a)\<rparr>) \<noteq> Pending"
    by (cases "promise a") simp_all
  then show ?case by (simp add: signals_part001_settled)
qed simp_all

text \<open>
  In src/unnamed/part_002, too, the handler's promise keeps its first settlement; what later
  calls of \<^verbatim>\<open>end\<close> change is \<^verbatim>\<open>set\<close>.
\<close>

lemma call_part002_pledge: "pledge (call_part002 parse c a) = pledge a"
  by (cases c) (simp_all add: originalEnd_def)

lemma later_part002_settled:
  "pledge a \<noteq> Pending \<Longrightarrow> pledge (later_part002 parse ss a) = pledge a"
proof (induction parse ss a rule: later_part002.induct)
  case (2 parse data ss a)
  then show ?case by (simp add: originalEnd_def)
qed (simp_all add: call_part002_pledge)

text \<open>
  The branch of the invalid request: it is taken, by a body that is no initialization request,
  when the header is absent or empty, or names neither a session nor a key of
  \<^verbatim>\<open>Object.prototype\<close>.
\<close>

lemma route_invalid:
  assumes "case sessionId of
             None \<Rightarrow> True
           | Some sid \<Rightarrow> sid = [] \<or> (sessions sid = None \<and> sid \<notin> set objectPrototypeKeys)"
  shows "route sessions sessionId False = Invalid"
  using assms by (auto simp: route_def property_def split: option.splits)

lemma post_invalid_bad_request:
  assumes "case inHeaders ''mcp-session-id'' of
             None \<Rightarrow> True
           | Some sid \<Rightarrow> sid = [] \<or> (sessions sid = None \<and> sid \<notin> set objectPrototypeKeys)"
    and "\<not> isInitializeRequest eng inBody"
  shows "post_mcp_index eng sessions inHeaders inBody =
           \<lparr>sessionsAfter = sessions, calls = [],
            answer = Resolved \<lparr>status = 400, respHeaders = jsonHeaders,
                                respBody = jsonRpcError ''-32000'' ''Bad Request''\<rparr>\<rparr>"
    and "post_mcp_part000 parse eng sessions inHeaders inBody ctx =
           \<lparr>sessionsLeft = sessions, handed = [],
            setLeft = ctx\<lparr>setStatus := 400,
                          setHeaders := (setHeaders ctx)(''Content-Type'' \<mapsto> ''application/json'')\<rparr>,
            returned = Resolved (Some (JString
              (jsonRpcError ''-32000'' ''Bad Request: No valid session ID provided'')))\<rparr>"
  using assms route_invalid [where sessionId = "inHeaders ''mcp-session-id''" and sessions = sessions]
  by (simp_all add: post_mcp_index_def post_mcp_part000_def badRequest_def Let_def)

text \<open>
  C2, as stated, fails for src/unnamed/part_000: its DELETE handler answers a header that
  names no session with 400 and a text, not with 200.
\<close>

theorem delete_part000_unknown_counterexample:
  "setStatus (setLeft (delete_mcp_part000 (jsonRejects :: string \<Rightarrow> int json option)
      (engineWith closingRun) [''s1'' \<mapsto> 7] [''mcp-session-id'' \<mapsto> ''gone''] freshSet)) = 400 \<and>
   returned (delete_mcp_part000 (jsonRejects :: string \<Rightarrow> int json option)
      (engineWith closingRun) [''s1'' \<mapsto> 7] [''mcp-session-id'' \<mapsto> ''gone''] freshSet)
     = Resolved (Some (JString ''Invalid or missing session ID''))"
  by (simp add: delete_mcp_part000_def session_defs Let_def)

text \<open>
  C2, amended. The DELETE handler of src/index.ts answers 200 with an empty body for every call.
  The DELETE handler of src/unnamed/part_000 answers 400 with the text
  \<^verbatim>\<open>Invalid or missing session ID\<close> when the header is absent, empty or names no property of
  \<^verbatim>\<open>sessions\<close>; for an active session it answers, once the transport is done, with the
  status the transport has written.
\<close>

theorem delete_status:
  "answer (delete_mcp_index sessions inHeaders) =
     Resolved \<lparr>status = 200, respHeaders = corsHeaders, respBody = []\<rparr> \<and>
   ((case inHeaders ''mcp-session-id'' of
       None \<Rightarrow> True
     | Some sid \<Rightarrow> sid = [] \<or> property sessions sid = Undefined) \<longrightarrow>
    setStatus (setLeft (delete_mcp_part000 parse eng sessions inHeaders ctx)) = 400 \<and>
    returned (delete_mcp_part000 parse eng sessions inHeaders ctx) =
      Resolved (Some (JString ''Invalid or missing session ID''))) \<and>
   (inHeaders ''mcp-session-id'' = Some sid \<and> sid \<noteq> [] \<and> sessions sid = Some t \<and>
    await_part000 (map Call (sync (behaviour eng)) @ later (behaviour eng)) freshSink = Returns s \<longrightarrow>
    setStatus (setLeft (delete_mcp_part000 parse eng sessions inHeaders ctx)) = statusCode s)"
  by (auto simp: delete_mcp_index_def delete_mcp_part000_def property_def relayStatus_def Let_def
      split: option.splits)

theorem delete_status_witness:
  "answer (delete_mcp_index [''s1'' \<mapsto> 7] Map.empty :: (nat, bool) responded) =
     Resolved \<lparr>status = 200, respHeaders = corsHeaders, respBody = []\<rparr> \<and>
   setStatus (setLeft (delete_mcp_part000 (jsonRejects :: string \<Rightarrow> int json option)
      (engineWith closingRun) [''s1'' \<mapsto> 7] Map.empty freshSet)) = 400 \<and>
   setStatus (setLeft (delete_mcp_part000 (jsonRejects :: string \<Rightarrow> int json option)
      (engineWith teapotRun) [''s1'' \<mapsto> 7] [''mcp-session-id'' \<mapsto> ''s1''] freshSet)) = 418"
proof -
  have absent: "case Map.empty ''mcp-session-id'' of
                  None \<Rightarrow> True
                | Some sid \<Rightarrow> sid = [] \<or> property [''s1'' \<mapsto> (7::nat)] sid = Undefined"
    by simp
  have active: "[''mcp-session-id'' \<mapsto> ''s1''] ''mcp-session-id'' = Some ''s1'' \<and> ''s1'' \<noteq> [] \<and>
      [''s1'' \<mapsto> (7::nat)] ''s1'' = Some 7 \<and>
      await_part000 (map Call (sync (behaviour (engineWith teapotRun)))
          @ later (behaviour (engineWith teapotRun))) freshSink
        = Returns (freshSink\<lparr>statusCode := 418\<rparr>)"
    by (simp add: engineWith_def teapotRun_def freshSink_def)
  note index = conjunct1 [OF delete_status [where sessions = "[''s1'' \<mapsto> (7::nat)]"
      and inHeaders = Map.empty and 'b = bool]]
  note guard = mp [OF conjunct1 [OF conjunct2 [OF delete_status [where sessions = "[''s1'' \<mapsto> (7::nat)]"
      and inHeaders = Map.empty and parse = "jsonRejects :: string \<Rightarrow> int json option"
      and eng = "engineWith closingRun" and ctx = freshSet]]] absent]
  note relay = mp [OF conjunct2 [OF conjunct2 [OF delete_status [where sessions = "[''s1'' \<mapsto> (7::nat)]"
      and inHeaders = "[''mcp-session-id'' \<mapsto> ''s1'']" and sid = "''s1''" and t = 7
      and parse = "jsonRejects :: string \<Rightarrow> int json option"
      and eng = "engineWith teapotRun" and ctx = freshSet
      and s = "freshSink\<lparr>statusCode := 418\<rparr>"]]] active]
  from index guard relay show ?thesis by simp
qed

text \<open>
  C3. On a valid session, let the promise of \<^verbatim>\<open>handleRequest\<close> be rejected before the sink is
  ended. The handler of src/index.ts attaches nothing to that promise: its own promise is
  resolved by \<^verbatim>\<open>end\<close> only (\<open>signals_index_no_end\<close>) and stays pending for ever, against the
  claim. The handler of src/unnamed/part_001 has the \<^verbatim>\<open>catch\<close> that src/index.ts lacks and
  answers with the internal error; it settles on every run that ends the sink or is rejected
  (\<open>signals_part001_settles\<close>).
\<close>

theorem post_index_pending_after_rejection:
  "answer (post_mcp_index (engineWith rejectingRun) [''s1'' \<mapsto> 7] [''mcp-session-id'' \<mapsto> ''s1''] False)
     = Pending \<and>
   answer (post_mcp_part001 (engineWith rejectingRun) [''s1'' \<mapsto> 7] [''mcp-session-id'' \<mapsto> ''s1''] False)
     = Resolved internalError"
  by (simp add: post_mcp_index_def post_mcp_part001_def session_defs engineWith_def rejectingRun_def
      drive_index_def drive_part001_def freshAdapter_def resolve_def)

text \<open>
  C4, as stated, fails for src/unnamed/part_000: for a registered session its DELETE handler
  hands the call to \<^verbatim>\<open>handleRequest\<close> of the session's transport.
\<close>

theorem delete_part000_forwards_counterexample:
  "handed (delete_mcp_part000 (jsonRejects :: string \<Rightarrow> int json option)
      (engineWith closingRun) [''s1'' \<mapsto> 7] [''mcp-session-id'' \<mapsto> ''s1''] freshSet)
     = [\<lparr>callee = 7, reqMethod = ''DELETE'', reqHeaders = [''mcp-session-id'' \<mapsto> ''s1''],
         reqBody = None, reqUrl = ''/mcp''\<rparr>]"
  by (simp add: delete_mcp_part000_def session_defs Let_def engineWith_def closingRun_def
      freshSink_def)

text \<open>
  C4, amended. For a DELETE call that names a registered session (a non-empty identifier), both
  handlers remove the session from the registry. The handler of src/index.ts then returns the
  bare acknowledgment (200, empty body) and hands nothing to a transport. The handler of
  src/unnamed/part_000 hands the call to \<^verbatim>\<open>handleRequest\<close> of the removed session's
  transport, once, as a \<^verbatim>\<open>DELETE\<close> of \<^verbatim>\<open>/mcp\<close>.
\<close>

theorem delete_registered:
  assumes "inHeaders ''mcp-session-id'' = Some sid" and "sid \<noteq> []" and "sessions sid = Some t"
  shows "delete_mcp_index sessions inHeaders =
           \<lparr>sessionsAfter = sessions(sid := None), calls = [],
            answer = Resolved \<lparr>status = 200, respHeaders = corsHeaders, respBody = []\<rparr>\<rparr> \<and>
         sessionsLeft (delete_mcp_part000 parse eng sessions inHeaders ctx) = sessions(sid := None) \<and>
         handed (delete_mcp_part000 parse eng sessions inHeaders ctx) =
           [\<lparr>callee = t, reqMethod = ''DELETE'', reqHeaders = inHeaders, reqBody = None,
             reqUrl = ''/mcp''\<rparr>]"
  using assms
  by (simp add: delete_mcp_index_def delete_mcp_part000_def property_def Let_def
      split: awaited.split)

theorem delete_registered_witness:
  "(delete_mcp_index [''s1'' \<mapsto> 7, ''s2'' \<mapsto> 8] [''mcp-session-id'' \<mapsto> ''s1'']
      :: (nat, bool) responded) =
     \<lparr>sessionsAfter = [''s2'' \<mapsto> 8], calls = [],
      answer = Resolved \<lparr>status = 200, respHeaders = corsHeaders, respBody = []\<rparr>\<rparr> \<and>
   handed (delete_mcp_part000 (jsonRejects :: string \<Rightarrow> int json option) (engineWith closingRun)
      [''s1'' \<mapsto> 7, ''s2'' \<mapsto> 8] [''mcp-session-id'' \<mapsto> ''s1''] freshSet) =
     [\<lparr>callee = 7, reqMethod = ''DELETE'', reqHeaders = [''mcp-session-id'' \<mapsto> ''s1''],
       reqBody = None, reqUrl = ''/mcp''\<rparr>]"
proof -
  have "[''s1'' \<mapsto> (7::nat), ''s2'' \<mapsto> 8](''s1'' := None) = [''s2'' \<mapsto> 8]"
    by (rule ext) simp
  then show ?thesis
    using delete_registered [where inHeaders = "[''mcp-session-id'' \<mapsto> ''s1'']" and sid = "''s1''"
        and sessions = "[''s1'' \<mapsto> (7::nat), ''s2'' \<mapsto> 8]" and t = 7
        and parse = "jsonRejects :: string \<Rightarrow> int json option" and eng = "engineWith closingRun"
        and ctx = freshSet and 'b = bool]
    by simp
qed

text \<open>
  C5. In src/index.ts the first \<^verbatim>\<open>end\<close> fixes the response, whatever follows
  (\<open>signals_index_first_end\<close>). In src/unnamed/part_002 the promise settles once
  (\<open>later_part002_settled\<close>), but later signals are observable, against the claim. Every
  \<^verbatim>\<open>end\<close> writes the status to \<^verbatim>\<open>set\<close>: when the sink is ended twice before the
  framework reads the reply, the body is that of the first call and the status
  that of the second (500 here, 200 had the sink been ended once). And an \<^verbatim>\<open>end\<close> called
  before \<^verbatim>\<open>handleRequest\<close> returns does not resolve the promise, so a rejection that follows
  it rejects the handler's promise.
\<close>

theorem post_part002_later_signals_observable:
  "returned (post_mcp_part002 (jsonRejects :: string \<Rightarrow> int json option) (engineWith endedTwiceRun)
       [''s1'' \<mapsto> 7] [''mcp-session-id'' \<mapsto> ''s1''] False freshSet)
     = Resolved (Some (JString ''first'')) \<and>
   setStatus (setLeft (post_mcp_part002 (jsonRejects :: string \<Rightarrow> int json option)
       (engineWith endedTwiceRun) [''s1'' \<mapsto> 7] [''mcp-session-id'' \<mapsto> ''s1''] False freshSet))
     = 500 \<and>
   setStatus (setLeft (post_mcp_part002 (jsonRejects :: string \<Rightarrow> int json option)
       (engineWith endedOnceRun) [''s1'' \<mapsto> 7] [''mcp-session-id'' \<mapsto> ''s1''] False freshSet))
     = 200 \<and>
   returned (post_mcp_part002 (jsonRejects :: string \<Rightarrow> int json option)
       (engineWith endedThenRejectedRun) [''s1'' \<mapsto> 7] [''mcp-session-id'' \<mapsto> ''s1''] False freshSet)
     = Rejected Thrown"
  by (simp add: post_mcp_part002_def session_defs engineWith_def endedTwiceRun_def endedOnceRun_def
      endedThenRejectedRun_def drive_part002_def originalEnd_def relayStatus_def relayData_def
      jsonRejects_def freshSink_def freshSet_def resolve_def reject_def Let_def)

text \<open>
  C6. A POST whose header names no registered session and whose body is no initialization
  request is answered with 400 and the error envelope, and the registry stays as it is, when
  the header is absent, empty or no key of \<^verbatim>\<open>Object.prototype\<close> (\<open>post_invalid_bad_request\<close>).
  But for the identifier \<^verbatim>\<open>constructor\<close>, which names no session, \<^verbatim>\<open>sessions[sessionId]\<close>
  is the inherited property and truthy: the handlers take the branch of a known session with
  an undefined transport. The promise of src/index.ts is rejected with the \<^verbatim>\<open>TypeError\<close>, and
  src/unnamed/part_000 catches it and answers 500.
\<close>

theorem post_inherited_key_not_rejected:
  "post_mcp_index eng Map.empty [''mcp-session-id'' \<mapsto> ''constructor''] inBody =
     \<lparr>sessionsAfter = Map.empty, calls = [], answer = Rejected TypeError\<rparr> \<and>
   setStatus (setLeft (post_mcp_part000 parse eng Map.empty [''mcp-session-id'' \<mapsto> ''constructor'']
      inBody ctx)) = 500"
  by (simp add: post_mcp_index_def post_mcp_part000_def session_defs Let_def)

end
